theory Spec2Isabelle
  imports Main "HOL-Library.Word"
begin

section \<open>The default HFP version accessor (system/bta/hfp/bta_hfp_api.cc)\<close>

text \<open>
  The file holds one function:
  \<^verbatim>\<open>
  #define DEFAULT_BTA_HFP_VERSION HFP_VERSION_1_7

  int get_default_hfp_version() {
  #ifdef __ANDROID__
    static const int version =
        android::sysprop::bluetooth::Hfp::version().value_or(
            DEFAULT_BTA_HFP_VERSION);
    return version;
  #else
    return DEFAULT_BTA_HFP_VERSION;
  #endif
  }
  \<close>
  The model makes explicit what the C++ leaves to the language and the platform: the
  build configuration, the function-local static with its one-time initialisation, and
  the answer of the property getter at the moment it is asked.
\<close>

subsection \<open>Data\<close>

text \<open>
  \<open>int\<close> and \<open>std::int32_t\<close> are 32-bit two's complement integers: \<open>sint\<close> reads
  the signed value of a word.
\<close>

type_synonym int32 = "32 word"

text \<open>The two preprocessor configurations: \<open>__ANDROID__\<close> defined, or not.\<close>

datatype build = Android | Host

text \<open>
  The state of a process, as far as the function can see or touch it.
  \<^item> \<open>version\<close> is the function-local \<open>static const int version\<close>: \<open>None\<close> until
    control first passes through its declaration, \<open>Some v\<close> from then on.
  \<^item> \<open>hfp_version_prop\<close> is what \<open>android::sysprop::bluetooth::Hfp::version()\<close>
    answers when asked now: \<open>hfp.sysprop.h\<close> is not part of the sources, so the answer
    of the getter (a \<^verbatim>\<open>std::optional<std::int32_t>\<close>, as \<open>value_or\<close> shows) is taken
    as given by the environment.
  \<^item> \<open>queries\<close> counts the calls of the getter made so far (an observer: the C++ has
    no such counter).
  Everything else of the program and the platform is the record's extension \<open>more\<close>.
\<close>

record process =
  version :: "int32 option"
  hfp_version_prop :: "int32 option"
  queries :: nat

subsection \<open>The function\<close>

text \<open>
  \<open>HFP_VERSION_1_7\<close> is defined in \<open>bta_hfp_api.h\<close>, which is not part of the sources:
  it is a parameter of the model.
\<close>

definition DEFAULT_BTA_HFP_VERSION :: "int32 \<Rightarrow> int32" where
  "DEFAULT_BTA_HFP_VERSION HFP_VERSION_1_7 = HFP_VERSION_1_7"

text \<open>\<^verbatim>\<open>std::optional<T>::value_or\<close>.\<close>

definition value_or :: "'a option \<Rightarrow> 'a \<Rightarrow> 'a" where
  "value_or opt dflt = (case opt of Some v \<Rightarrow> v | None \<Rightarrow> dflt)"

text \<open>
  One call of \<open>android::sysprop::bluetooth::Hfp::version()\<close>. The getter is not part
  of the sources: its answer is the parameter \<open>hfp_version_prop\<close> of the state; a call
  reads that answer and is counted.
\<close>

definition Hfp_version :: "'a process_scheme \<Rightarrow> int32 option \<times> 'a process_scheme" where
  "Hfp_version st = (hfp_version_prop st, st\<lparr>queries := Suc (queries st)\<rparr>)"

text \<open>
  On Android the initialiser of the static runs only while the static is not yet
  initialised; afterwards the declaration is skipped and the stored number is returned.
\<close>

definition get_default_hfp_version ::
    "build \<Rightarrow> int32 \<Rightarrow> 'a process_scheme \<Rightarrow> int32 \<times> 'a process_scheme" where
  "get_default_hfp_version b HFP_VERSION_1_7 st =
     (case b of
        Android \<Rightarrow>
          (case version st of
             Some v \<Rightarrow> (v, st)
           | None \<Rightarrow>
               (let (r, st1) = Hfp_version st;
                    v = value_or r (DEFAULT_BTA_HFP_VERSION HFP_VERSION_1_7)
                in (v, st1\<lparr>version := Some v\<rparr>)))
      | Host \<Rightarrow> (DEFAULT_BTA_HFP_VERSION HFP_VERSION_1_7, st))"

subsection \<open>A process lifetime\<close>

text \<open>
  What happens to the function during the life of a process: it is called, and between
  calls the platform property may be set, changed or cleared from outside. The static
  is local to the function, so nothing else writes it.
\<close>

datatype event = Call | Set_prop "int32 option"

text \<open>
  \<open>run\<close> plays a sequence of events from a state and returns the numbers the calls
  returned, in order, with the final state.
\<close>

fun run ::
    "build \<Rightarrow> int32 \<Rightarrow> event list \<Rightarrow> 'a process_scheme \<Rightarrow> int32 list \<times> 'a process_scheme" where
  "run b d [] st = ([], st)"
| "run b d (Call # es) st =
     (let (v, st1) = get_default_hfp_version b d st;
          (vs, st2) = run b d es st1
      in (v # vs, st2))"
| "run b d (Set_prop p # es) st = run b d es (st\<lparr>hfp_version_prop := p\<rparr>)"

text \<open>A process at its start: the static is not initialised and nothing was asked.\<close>

definition process_start :: "int32 option \<Rightarrow> process" where
  "process_start p = \<lparr>version = None, hfp_version_prop = p, queries = 0\<rparr>"

subsection \<open>The platform store behind the getter\<close>

text \<open>
  What the store can hold for the property when it is asked: the store cannot be
  reached, the property is not set, it is set to a text that is no integer, or it
  holds an integer.
\<close>

datatype store = Unavailable | Absent | Unparsable | Holds int32

text \<open>
  Modelled from the spec: the generated getter
  \<open>android::sysprop::bluetooth::Hfp::version()\<close> (\<open>hfp.sysprop.h\<close> is not part of the
  sources). The spec describes it as a read operation of the configuration store
  "returning an optional integer", where "any lookup failure (property absent, store
  unavailable, parse failure) is treated as use default": only a property that is
  present and parses gives a number.
\<close>

definition read_hfp_version :: "store \<Rightarrow> int32 option" where
  "read_hfp_version s = (case s of Holds v \<Rightarrow> Some v | _ \<Rightarrow> None)"

section \<open>Single calls\<close>

lemma get_host [simp]:
  "get_default_hfp_version Host d st = (DEFAULT_BTA_HFP_VERSION d, st)"
  by (simp add: get_default_hfp_version_def)

lemma get_android_cached [simp]:
  "version st = Some v \<Longrightarrow> get_default_hfp_version Android d st = (v, st)"
  by (simp add: get_default_hfp_version_def)

lemma get_android_first [simp]:
  "version st = None \<Longrightarrow>
   get_default_hfp_version Android d st =
     (value_or (hfp_version_prop st) (DEFAULT_BTA_HFP_VERSION d),
      st\<lparr>queries := Suc (queries st),
         version := Some (value_or (hfp_version_prop st) (DEFAULT_BTA_HFP_VERSION d))\<rparr>)"
  by (simp add: get_default_hfp_version_def Hfp_version_def Let_def)

lemma get_more [simp]: "process.more (snd (get_default_hfp_version b d st)) = process.more st"
  by (cases b; cases "version st") simp_all

lemma get_prop [simp]:
  "hfp_version_prop (snd (get_default_hfp_version b d st)) = hfp_version_prop st"
  by (cases b; cases "version st") simp_all

section \<open>Runs\<close>

lemma run_Call [simp]:
  "run b d (Call # es) st =
     (fst (get_default_hfp_version b d st) # fst (run b d es (snd (get_default_hfp_version b d st))),
      snd (run b d es (snd (get_default_hfp_version b d st))))"
  by (simp add: split_def Let_def)

declare run.simps(2) [simp del]

lemma run_append_fst:
  "fst (run b d (es1 @ es2) st) =
     fst (run b d es1 st) @ fst (run b d es2 (snd (run b d es1 st)))"
proof (induction es1 arbitrary: st)
  case Nil
  show ?case by simp
next
  case (Cons e es1)
  then show ?case by (cases e) simp_all
qed

lemma run_append_snd:
  "snd (run b d (es1 @ es2) st) = snd (run b d es2 (snd (run b d es1 st)))"
proof (induction es1 arbitrary: st)
  case Nil
  show ?case by simp
next
  case (Cons e es1)
  then show ?case by (cases e) simp_all
qed

lemma run_more: "process.more (snd (run b d es st)) = process.more st"
proof (induction es arbitrary: st)
  case Nil
  show ?case by simp
next
  case (Cons e es)
  then show ?case by (cases e) simp_all
qed

subsection \<open>Without the store\<close>

lemma run_host_fst:
  "fst (run Host d es st) = replicate (count_list es Call) (DEFAULT_BTA_HFP_VERSION d)"
proof (induction es arbitrary: st)
  case Nil
  show ?case by simp
next
  case (Cons e es)
  then show ?case by (cases e) simp_all
qed

lemma run_host_queries: "queries (snd (run Host d es st)) = queries st"
proof (induction es arbitrary: st)
  case Nil
  show ?case by simp
next
  case (Cons e es)
  then show ?case by (cases e) simp_all
qed

lemma run_host_version: "version (snd (run Host d es st)) = version st"
proof (induction es arbitrary: st)
  case Nil
  show ?case by simp
next
  case (Cons e es)
  then show ?case by (cases e) simp_all
qed

subsection \<open>With the store, once the static is initialised\<close>

lemma run_cached_fst:
  "version st = Some v \<Longrightarrow> fst (run Android d es st) = replicate (count_list es Call) v"
proof (induction es arbitrary: st)
  case Nil
  show ?case by simp
next
  case (Cons e es)
  then show ?case by (cases e) simp_all
qed

lemma run_cached_queries:
  "version st = Some v \<Longrightarrow> queries (snd (run Android d es st)) = queries st"
proof (induction es arbitrary: st)
  case Nil
  show ?case by simp
next
  case (Cons e es)
  then show ?case by (cases e) simp_all
qed

lemma run_cached_version:
  "version st = Some v \<Longrightarrow> version (snd (run Android d es st)) = Some v"
proof (induction es arbitrary: st)
  case Nil
  then show ?case by simp
next
  case (Cons e es)
  then show ?case by (cases e) simp_all
qed

subsection \<open>After any call\<close>

text \<open>What a call returned is what every later call returns, whatever happens between.\<close>

lemma run_after_call_fst:
  "fst (run b d es (snd (get_default_hfp_version b d st))) =
     replicate (count_list es Call) (fst (get_default_hfp_version b d st))"
proof (cases b)
  case Host
  then show ?thesis by (simp add: run_host_fst)
next
  case Android
  show ?thesis
  proof (cases "version st")
    case None
    with Android show ?thesis by (simp add: run_cached_fst)
  next
    case (Some v)
    with Android show ?thesis by (simp add: run_cached_fst)
  qed
qed

lemma run_after_call_queries:
  "queries (snd (run b d es (snd (get_default_hfp_version b d st)))) =
     queries (snd (get_default_hfp_version b d st))"
proof (cases b)
  case Host
  then show ?thesis by (simp add: run_host_queries)
next
  case Android
  show ?thesis
  proof (cases "version st")
    case None
    with Android show ?thesis by (simp add: run_cached_queries)
  next
    case (Some v)
    with Android show ?thesis by (simp add: run_cached_queries)
  qed
qed

lemma run_after_call_version:
  "version (snd (run b d es (snd (get_default_hfp_version b d st)))) =
     version (snd (get_default_hfp_version b d st))"
proof (cases b)
  case Host
  then show ?thesis by (simp add: run_host_version)
next
  case Android
  show ?thesis
  proof (cases "version st")
    case None
    with Android show ?thesis by (simp add: run_cached_version)
  next
    case (Some v)
    with Android show ?thesis by (simp add: run_cached_version)
  qed
qed

subsection \<open>From a state where the static is not initialised\<close>

lemma run_uninit_queries:
  "version st = None \<Longrightarrow>
   queries (snd (run Android d es st)) = (if Call \<in> set es then Suc (queries st) else queries st)"
proof (induction es arbitrary: st)
  case Nil
  show ?case by simp
next
  case (Cons e es)
  show ?case
  proof (cases e)
    case Call
    with Cons.prems show ?thesis by (simp add: run_cached_queries)
  next
    case (Set_prop p)
    with Cons.prems Cons.IH [of "st\<lparr>hfp_version_prop := p\<rparr>"] show ?thesis by simp
  qed
qed

section \<open>The claims\<close>

text \<open>
  C1. On a build without the configuration store, every call returns the compiled-in
  constant \<open>DEFAULT_BTA_HFP_VERSION\<close> and leaves the state as it was; in any sequence
  of calls and property changes, from any state, each call returns the constant and the
  getter is never asked.
\<close>

theorem host_returns_default:
  "get_default_hfp_version Host d st = (DEFAULT_BTA_HFP_VERSION d, st) \<and>
   fst (run Host d es st) = replicate (count_list es Call) (DEFAULT_BTA_HFP_VERSION d) \<and>
   queries (snd (run Host d es st)) = queries st"
  by (simp add: run_host_fst run_host_queries)

theorem host_returns_default_witness:
  "run Host 263 [Call, Set_prop (Some 262), Call, Call] (process_start (Some 261)) =
     ([263, 263, 263], process_start (Some 262))"
  using host_returns_default [of 263 "process_start (Some 261)"]
  by (simp add: process_start_def DEFAULT_BTA_HFP_VERSION_def)

text \<open>
  C2. On an Android build, when the static is not yet initialised and the getter
  answers "no value" at the first call, that call and every later call return
  \<open>DEFAULT_BTA_HFP_VERSION\<close>, whatever happens to the property afterwards.
\<close>

theorem android_no_override_default:
  assumes "version st = None" and "hfp_version_prop st = None"
  shows "fst (run Android d (Call # es) st) =
           replicate (Suc (count_list es Call)) (DEFAULT_BTA_HFP_VERSION d)"
  using assms by (simp add: value_or_def run_cached_fst)

theorem android_no_override_default_witness:
  "version (process_start None) = None \<and> hfp_version_prop (process_start None) = None \<and>
   fst (run Android 263 [Call, Set_prop (Some 262), Call, Call] (process_start None)) =
     [263, 263, 263]"
  using android_no_override_default
    [of "process_start None" 263 "[Set_prop (Some 262), Call, Call]"]
  by (simp add: process_start_def DEFAULT_BTA_HFP_VERSION_def)

text \<open>
  C3. On an Android build, when the static is not yet initialised and the getter
  answers \<open>V\<close> at the first call, the first call returns \<open>V\<close> and so does every call
  after the first, whatever happens to the property afterwards.
\<close>

theorem android_override_returned:
  assumes "version st = None" and "hfp_version_prop st = Some V"
  shows "fst (run Android d (Call # es) st) = V # replicate (count_list es Call) V"
  using assms by (simp add: value_or_def run_cached_fst)

theorem android_override_returned_witness:
  "version (process_start (Some 262)) = None \<and>
   hfp_version_prop (process_start (Some 262)) = Some 262 \<and>
   fst (run Android 263 [Call, Set_prop None, Call, Set_prop (Some 264), Call]
          (process_start (Some 262))) = [262, 262, 262]"
  using android_override_returned
    [of "process_start (Some 262)" 262 263 "[Set_prop None, Call, Set_prop (Some 264), Call]"]
  by (simp add: process_start_def)

text \<open>
  C4. On either build and from any state, every call of a process returns the number
  the first call returned, also when the property is changed between the calls.
\<close>

theorem calls_return_same:
  "fst (run b d (Call # es) st) =
     replicate (Suc (count_list es Call)) (fst (get_default_hfp_version b d st))"
  by (simp add: run_after_call_fst)

theorem calls_return_same_witness:
  "fst (run Android 263 [Call, Set_prop (Some 264), Call, Set_prop None, Call]
          (process_start (Some 262))) = [262, 262, 262]"
  using calls_return_same
    [of Android 263 "[Set_prop (Some 264), Call, Set_prop None, Call]" "process_start (Some 262)"]
  by (simp add: process_start_def value_or_def)

text \<open>
  C5. In a process, whatever the sequence of calls and property changes, the getter is
  asked at most once; and once a call has returned, no later event changes the number
  of times the getter was asked or the content of the static.
\<close>

theorem queried_at_most_once:
  "queries (snd (run b d es (process_start p))) \<le> 1 \<and>
   queries (snd (run b d (es1 @ Call # es2) (process_start p))) =
     queries (snd (run b d (es1 @ [Call]) (process_start p))) \<and>
   version (snd (run b d (es1 @ Call # es2) (process_start p))) =
     version (snd (run b d (es1 @ [Call]) (process_start p)))"
proof -
  have once: "queries (snd (run b d es (process_start p))) \<le> 1"
  proof (cases b)
    case Host
    then show ?thesis by (simp add: run_host_queries process_start_def)
  next
    case Android
    have "version (process_start p) = None" by (simp add: process_start_def)
    then have "queries (snd (run Android d es (process_start p))) =
        (if Call \<in> set es then Suc (queries (process_start p)) else queries (process_start p))"
      by (rule run_uninit_queries)
    with Android show ?thesis by (simp add: process_start_def)
  qed
  have later_queries: "queries (snd (run b d (es1 @ Call # es2) (process_start p))) =
      queries (snd (run b d (es1 @ [Call]) (process_start p)))"
    by (simp add: run_append_snd run_after_call_queries)
  have later_version: "version (snd (run b d (es1 @ Call # es2) (process_start p))) =
      version (snd (run b d (es1 @ [Call]) (process_start p)))"
    by (simp add: run_append_snd run_after_call_version)
  from once later_queries later_version show ?thesis by simp
qed

theorem queried_at_most_once_witness:
  "queries (snd (run Android 263 [Set_prop (Some 262), Call, Set_prop (Some 264), Call, Call]
                  (process_start None))) = 1 \<and>
   version (snd (run Android 263 [Set_prop (Some 262), Call, Set_prop (Some 264), Call, Call]
                  (process_start None))) = Some 262"
  using queried_at_most_once
    [of Android 263 "[Set_prop (Some 262), Call, Set_prop (Some 264), Call, Call]" None
        "[Set_prop (Some 262)]" "[Set_prop (Some 264), Call, Call]"]
  by (simp add: process_start_def value_or_def)

text \<open>
  C6. The function has no error result. Whatever the store holds (it cannot be reached,
  the property is not set, it does not parse, it holds a number) and on either build,
  a call returns a number: the constant without the store, the content of the static
  once it is initialised, and otherwise the number the store holds, or the constant
  when the lookup gives none.
\<close>

theorem never_fails:
  "fst (get_default_hfp_version b d (st\<lparr>hfp_version_prop := read_hfp_version s\<rparr>)) =
     (case b of
        Host \<Rightarrow> DEFAULT_BTA_HFP_VERSION d
      | Android \<Rightarrow>
          (case version st of
             Some c \<Rightarrow> c
           | None \<Rightarrow> (case s of Holds v \<Rightarrow> v | _ \<Rightarrow> DEFAULT_BTA_HFP_VERSION d)))"
  by (cases b; cases "version st"; cases s) (simp_all add: read_hfp_version_def value_or_def)

theorem never_fails_witness:
  "fst (get_default_hfp_version Android 263
          ((process_start None)\<lparr>hfp_version_prop := read_hfp_version Unparsable\<rparr>)) = 263 \<and>
   fst (get_default_hfp_version Android 263
          ((process_start None)\<lparr>hfp_version_prop := read_hfp_version Unavailable\<rparr>)) = 263 \<and>
   fst (get_default_hfp_version Android 263
          ((process_start None)\<lparr>hfp_version_prop := read_hfp_version Absent\<rparr>)) = 263 \<and>
   fst (get_default_hfp_version Android 263
          ((process_start None)\<lparr>hfp_version_prop := read_hfp_version (Holds 262)\<rparr>)) = 262"
  using never_fails [where b = Android and d = 263 and st = "process_start None" and s = Unparsable]
    never_fails [where b = Android and d = 263 and st = "process_start None" and s = Unavailable]
    never_fails [where b = Android and d = 263 and st = "process_start None" and s = Absent]
    never_fails [where b = Android and d = 263 and st = "process_start None" and s = "Holds 262"]
  by (simp add: process_start_def DEFAULT_BTA_HFP_VERSION_def)

text \<open>
  C8. A call changes nothing but the static, and that only in the one call that
  initialises it (the call in which the getter is asked, once): on the build without
  the store, and on Android once the static is initialised, the state after the call is
  the state before it. The rest of the program and platform state is the same after any
  sequence of calls and property changes.
\<close>

theorem only_initialises_static:
  "snd (get_default_hfp_version b d st) =
     (if b = Android \<and> version st = None
      then st\<lparr>queries := Suc (queries st),
              version := Some (fst (get_default_hfp_version b d st))\<rparr>
      else st) \<and>
   process.more (snd (run b d es st)) = process.more st"
proof -
  have one: "snd (get_default_hfp_version b d st) =
     (if b = Android \<and> version st = None
      then st\<lparr>queries := Suc (queries st),
              version := Some (fst (get_default_hfp_version b d st))\<rparr>
      else st)"
  proof (cases b)
    case Host
    then show ?thesis by simp
  next
    case Android
    then show ?thesis by (cases "version st") simp_all
  qed
  then show ?thesis by (simp add: run_more)
qed

theorem only_initialises_static_witness:
  "snd (get_default_hfp_version Android 263 (process_start (Some 262))) =
     \<lparr>version = Some 262, hfp_version_prop = Some 262, queries = 1\<rparr> \<and>
   snd (get_default_hfp_version Android 263
          \<lparr>version = Some 262, hfp_version_prop = Some 264, queries = 1\<rparr>) =
     \<lparr>version = Some 262, hfp_version_prop = Some 264, queries = 1\<rparr>"
  using only_initialises_static [of Android 263 "process_start (Some 262)" "[]"]
    only_initialises_static
      [of Android 263 "\<lparr>version = Some 262, hfp_version_prop = Some 264, queries = 1\<rparr>" "[]"]
  by (simp add: process_start_def value_or_def)

text \<open>
  C9. The override is not checked against any range: on an Android build, whatever
  32-bit integer the getter answers at the initialising call is what the call returns,
  be it zero, negative or no HFP version at all.
\<close>

theorem override_not_validated:
  assumes "version st = None" and "hfp_version_prop st = Some v"
  shows "fst (get_default_hfp_version Android d st) = v"
  using assms by (simp add: value_or_def)

theorem override_not_validated_witness:
  "version (process_start (Some 0)) = None \<and>
   hfp_version_prop (process_start (Some 0)) = Some 0 \<and>
   fst (get_default_hfp_version Android 263 (process_start (Some 0))) = 0 \<and>
   version (process_start (Some (- 1))) = None \<and>
   hfp_version_prop (process_start (Some (- 1))) = Some (- 1) \<and>
   sint (fst (get_default_hfp_version Android 263 (process_start (Some (- 1))))) = - 1"
  using override_not_validated [of "process_start (Some 0)" 0 263]
    override_not_validated [of "process_start (Some (- 1))" "- 1" 263]
  by (simp add: process_start_def)

text \<open>
  C10. Both builds fall back to the same constant, \<open>DEFAULT_BTA_HFP_VERSION\<close>: when
  the static is not yet initialised and the getter answers "no value" at the first call,
  every call of any run returns \<open>DEFAULT_BTA_HFP_VERSION\<close> on the Android build, every
  call returns \<open>DEFAULT_BTA_HFP_VERSION\<close> on the build without the store, and so the
  two builds return the same numbers.
\<close>

theorem builds_share_fallback:
  assumes "version st = None" and "hfp_version_prop st = None"
  shows "fst (run Android d (Call # es) st) =
           replicate (Suc (count_list es Call)) (DEFAULT_BTA_HFP_VERSION d) \<and>
         fst (run Host d (Call # es) st') =
           replicate (Suc (count_list es Call)) (DEFAULT_BTA_HFP_VERSION d) \<and>
         fst (run Android d (Call # es) st) = fst (run Host d (Call # es) st')"
proof -
  have android: "fst (run Android d (Call # es) st) =
      replicate (Suc (count_list es Call)) (DEFAULT_BTA_HFP_VERSION d)"
    using assms by (simp add: value_or_def run_cached_fst)
  have host: "fst (run Host d (Call # es) st') =
      replicate (Suc (count_list es Call)) (DEFAULT_BTA_HFP_VERSION d)"
    by (simp add: run_host_fst)
  from android host show ?thesis by simp
qed

theorem builds_share_fallback_witness:
  "version (process_start None) = None \<and> hfp_version_prop (process_start None) = None \<and>
   fst (run Android 263 [Call, Set_prop (Some 262), Call] (process_start None)) = [263, 263] \<and>
   fst (run Host 263 [Call, Set_prop (Some 262), Call] (process_start None)) = [263, 263] \<and>
   DEFAULT_BTA_HFP_VERSION 263 = 263"
  using builds_share_fallback
    [of "process_start None" 263 "[Set_prop (Some 262), Call]" "process_start None"]
  by (simp add: process_start_def DEFAULT_BTA_HFP_VERSION_def)

end
